theory Spec2Isabelle
  imports Complex_Main "HOL-Library.AList"
begin

section \<open>JavaScript numbers and values\<close>

text \<open>
  The attrition engine (\<^verbatim>\<open>libcompute.ts\<close>) and the rate inference of \<^verbatim>\<open>page.tsx\<close> compute on
  JavaScript numbers. A number is modelled as a real, or one of the three values that are
  not finite: \<^verbatim>\<open>Infinity\<close>, \<^verbatim>\<open>-Infinity\<close> and \<^verbatim>\<open>NaN\<close>. Arithmetic on finite numbers is exact:
  the rounding of IEEE 754 doubles, overflow to infinity and the sign of zero are not
  modelled. Every theorem below is a statement about this exact arithmetic.
\<close>

datatype number = Fin real | PosInfinity | NegInfinity | NaN

text \<open>
  A value read from a row or an option object. The engine applies three things to such a
  value: the test against \<^verbatim>\<open>null\<close> and \<^verbatim>\<open>undefined\<close> of the operator \<^verbatim>\<open>??\<close>, the coercion
  \<^verbatim>\<open>Number(v)\<close>, and \<^verbatim>\<open>Array.isArray\<close> (for which see \<open>arrfield\<close> below). \<open>Other n\<close> stands for
  any boolean, string or object, named by the number \<open>n\<close> that \<^verbatim>\<open>Number\<close> gives for it (\<open>NaN\<close>
  for \<^verbatim>\<open>"abc"\<close>, 3 for \<^verbatim>\<open>"3"\<close>).
\<close>

datatype jsval = Undefined | Null | NumV number | Other number

text \<open>A field that may hold an array: \<^verbatim>\<open>Array.isArray\<close> tells the two cases apart.\<close>

datatype arrfield = Arr "jsval list" | NotArr jsval

fun Number :: "jsval \<Rightarrow> number" where
  "Number Undefined = NaN"
| "Number Null = Fin 0"
| "Number (NumV n) = n"
| "Number (Other n) = n"

text \<open>\<^verbatim>\<open>v ?? dflt\<close>\<close>

fun nullish :: "jsval \<Rightarrow> jsval \<Rightarrow> jsval" where
  "nullish Undefined dflt = dflt"
| "nullish Null dflt = dflt"
| "nullish v dflt = v"

text \<open>\<^verbatim>\<open>base[i]\<close>: reading past the end of an array gives \<^verbatim>\<open>undefined\<close>.\<close>

definition at_index :: "jsval list \<Rightarrow> nat \<Rightarrow> jsval" where
  "at_index base i = (if i < length base then base ! i else Undefined)"

subsection \<open>The operators and \<^verbatim>\<open>Math\<close> functions on numbers\<close>

fun isFinite :: "number \<Rightarrow> bool" where
  "isFinite (Fin x) = True"
| "isFinite n = False"

text \<open>\<^verbatim>\<open>a <= b\<close>, \<^verbatim>\<open>a >= b\<close>, \<^verbatim>\<open>a < b\<close>: false as soon as one side is \<^verbatim>\<open>NaN\<close>.\<close>

fun js_le :: "number \<Rightarrow> number \<Rightarrow> bool" where
  "js_le NaN b = False"
| "js_le a NaN = False"
| "js_le NegInfinity b = True"
| "js_le a PosInfinity = True"
| "js_le (Fin x) (Fin y) = (x \<le> y)"
| "js_le a b = False"

definition js_ge :: "number \<Rightarrow> number \<Rightarrow> bool" where
  "js_ge a b = js_le b a"

fun js_lt :: "number \<Rightarrow> number \<Rightarrow> bool" where
  "js_lt NaN b = False"
| "js_lt a NaN = False"
| "js_lt (Fin x) (Fin y) = (x < y)"
| "js_lt PosInfinity b = False"
| "js_lt a NegInfinity = False"
| "js_lt a b = True"

fun js_neg :: "number \<Rightarrow> number" where
  "js_neg (Fin x) = Fin (- x)"
| "js_neg PosInfinity = NegInfinity"
| "js_neg NegInfinity = PosInfinity"
| "js_neg NaN = NaN"

fun js_add :: "number \<Rightarrow> number \<Rightarrow> number" where
  "js_add NaN b = NaN"
| "js_add a NaN = NaN"
| "js_add (Fin x) (Fin y) = Fin (x + y)"
| "js_add PosInfinity NegInfinity = NaN"
| "js_add NegInfinity PosInfinity = NaN"
| "js_add (Fin x) b = b"
| "js_add a b = a"

definition js_sub :: "number \<Rightarrow> number \<Rightarrow> number" where
  "js_sub a b = js_add a (js_neg b)"

text \<open>An infinity with the sign of \<open>s\<close>; a zero counts as positive.\<close>

definition signed_inf :: "real \<Rightarrow> number" where
  "signed_inf s = (if 0 \<le> s then PosInfinity else NegInfinity)"

fun js_mul :: "number \<Rightarrow> number \<Rightarrow> number" where
  "js_mul NaN b = NaN"
| "js_mul a NaN = NaN"
| "js_mul (Fin x) (Fin y) = Fin (x * y)"
| "js_mul (Fin x) PosInfinity = (if x = 0 then NaN else signed_inf x)"
| "js_mul (Fin x) NegInfinity = (if x = 0 then NaN else signed_inf (- x))"
| "js_mul PosInfinity (Fin y) = (if y = 0 then NaN else signed_inf y)"
| "js_mul NegInfinity (Fin y) = (if y = 0 then NaN else signed_inf (- y))"
| "js_mul PosInfinity PosInfinity = PosInfinity"
| "js_mul NegInfinity NegInfinity = PosInfinity"
| "js_mul a b = NegInfinity"

fun js_div :: "number \<Rightarrow> number \<Rightarrow> number" where
  "js_div NaN b = NaN"
| "js_div a NaN = NaN"
| "js_div (Fin x) (Fin y) =
     (if y \<noteq> 0 then Fin (x / y) else if x = 0 then NaN else signed_inf x)"
| "js_div (Fin x) b = Fin 0"
| "js_div PosInfinity (Fin y) = (if 0 \<le> y then PosInfinity else NegInfinity)"
| "js_div NegInfinity (Fin y) = (if 0 \<le> y then NegInfinity else PosInfinity)"
| "js_div a b = NaN"

fun Math_max :: "number \<Rightarrow> number \<Rightarrow> number" where
  "Math_max NaN b = NaN"
| "Math_max a NaN = NaN"
| "Math_max a b = (if js_le a b then b else a)"

fun Math_min :: "number \<Rightarrow> number \<Rightarrow> number" where
  "Math_min NaN b = NaN"
| "Math_min a NaN = NaN"
| "Math_min a b = (if js_le a b then a else b)"

fun Math_floor :: "number \<Rightarrow> number" where
  "Math_floor (Fin x) = Fin (of_int \<lfloor>x\<rfloor>)"
| "Math_floor n = n"

text \<open>\<^verbatim>\<open>Math.round\<close> rounds to the nearest integer, a half towards \<open>+\<infinity>\<close>.\<close>

definition round_half_up :: "real \<Rightarrow> int" where
  "round_half_up x = \<lfloor>x + 1 / 2\<rfloor>"


fun Math_log :: "number \<Rightarrow> number" where
  "Math_log (Fin x) = (if x < 0 then NaN else if x = 0 then NegInfinity else Fin (ln x))"
| "Math_log PosInfinity = PosInfinity"
| "Math_log n = NaN"

text \<open>
  \<^verbatim>\<open>Math.pow\<close> on two finite numbers. An integer exponent is repeated multiplication (or
  division); a fractional one is defined on a positive base only.
\<close>

definition pow_fin :: "real \<Rightarrow> real \<Rightarrow> number" where
  "pow_fin b e =
     (if e = 0 then Fin 1
      else if b = 0 then (if 0 < e then Fin 0 else PosInfinity)
      else if e = of_int \<lfloor>e\<rfloor> then Fin (b powi \<lfloor>e\<rfloor>)
      else if 0 < b then Fin (b powr e)
      else NaN)"

fun Math_pow :: "number \<Rightarrow> number \<Rightarrow> number" where
  "Math_pow b NaN = NaN"
| "Math_pow b (Fin e) =
     (if e = 0 then Fin 1
      else case b of
        NaN \<Rightarrow> NaN
      | Fin x \<Rightarrow> pow_fin x e
      | PosInfinity \<Rightarrow> (if 0 < e then PosInfinity else Fin 0)
      | NegInfinity \<Rightarrow>
          (if e < 0 then Fin 0
           else if e = of_int \<lfloor>e\<rfloor> \<and> odd \<lfloor>e\<rfloor> then NegInfinity else PosInfinity))"
| "Math_pow NaN e = NaN"
| "Math_pow (Fin x) PosInfinity =
     (if \<bar>x\<bar> = 1 then NaN else if 1 < \<bar>x\<bar> then PosInfinity else Fin 0)"
| "Math_pow (Fin x) NegInfinity =
     (if \<bar>x\<bar> = 1 then NaN else if 1 < \<bar>x\<bar> then Fin 0 else PosInfinity)"
| "Math_pow b PosInfinity = PosInfinity"
| "Math_pow b NegInfinity = Fin 0"

section \<open>The engine (\<^verbatim>\<open>libcompute.ts\<close>)\<close>

text \<open>\<^verbatim>\<open>clamp(n, min, max) = Math.max(min, Math.min(max, n))\<close>, used on finite numbers only.\<close>

definition clamp :: "'a::linorder \<Rightarrow> 'a \<Rightarrow> 'a \<Rightarrow> 'a" where
  "clamp n lo hi = max lo (min hi n)"

text \<open>\<^verbatim>\<open>safeNum\<close> replaces whatever is not a finite number by 0, so its result is a real.\<close>

definition safeNum :: "jsval \<Rightarrow> real" where
  "safeNum v = (case Number v of Fin x \<Rightarrow> x | _ \<Rightarrow> 0)"

text \<open>
  \<^verbatim>\<open>remainingAfterDays\<close>. \<open>d\<close> is a non-negative integer, so \<^verbatim>\<open>Math.pow(1 - p, d)\<close> is the
  \<open>d\<close>-fold product; the last branch is reached with \<open>0 < 1 - p < 1\<close> only.
\<close>

definition remainingAfterDays :: "number \<Rightarrow> jsval \<Rightarrow> jsval \<Rightarrow> number" where
  "remainingAfterDays start dailyPct day =
     (let p = safeNum dailyPct / 100;
          d = max 0 \<lfloor>safeNum day\<rfloor>
      in if js_le start (Fin 0) then Fin 0
         else if p \<le> 0 then start
         else if p \<ge> 1 then Fin 0
         else js_mul start (Math_pow (Fin (1 - p)) (Fin (of_int d))))"

text \<open>\<^verbatim>\<open>daysToReachFraction\<close>: \<open>None\<close> is the \<^verbatim>\<open>null\<close> of the source ("unreachable").\<close>

definition daysToReachFraction :: "jsval \<Rightarrow> number \<Rightarrow> int option" where
  "daysToReachFraction dailyPct targetFraction =
     (let p = safeNum dailyPct / 100
      in if js_le targetFraction (Fin 0) then Some 0
         else if js_ge targetFraction (Fin 1) then None
         else if p \<le> 0 then None
         else if p \<ge> 1 then Some 0
         else (case js_div (Math_log targetFraction) (Math_log (Fin (1 - p))) of
                 Fin d \<Rightarrow> (if d < 0 then None else Some \<lceil>d\<rceil>)
               | _ \<Rightarrow> None))"

subsection \<open>Unit identifiers\<close>

text \<open>
  \<^verbatim>\<open>normalizeBn\<close> trims the identifier, puts it in upper case and collapses each run of white
  space into one space. Identifiers are strings of ASCII characters here: the white space
  is the ASCII white space (tab, line feed, vertical tab, form feed, carriage return,
  space) and only the letters a to z change case.
\<close>

definition is_space :: "char \<Rightarrow> bool" where
  "is_space c = (c \<in> set [CHR '' '', CHR 0x09, CHR 0x0A, CHR 0x0B, CHR 0x0C, CHR 0x0D])"

definition toUpperChar :: "char \<Rightarrow> char" where
  "toUpperChar c =
     (case map_of (zip ''abcdefghijklmnopqrstuvwxyz'' ''ABCDEFGHIJKLMNOPQRSTUVWXYZ'') c of
        Some u \<Rightarrow> u
      | None \<Rightarrow> c)"

definition trim :: "string \<Rightarrow> string" where
  "trim s = rev (dropWhile is_space (rev (dropWhile is_space s)))"

definition toUpperCase :: "string \<Rightarrow> string" where
  "toUpperCase s = map toUpperChar s"

text \<open>\<^verbatim>\<open>s.replace(/\s+/g, " ")\<close>\<close>

function collapse_spaces :: "string \<Rightarrow> string" where
  "collapse_spaces [] = []"
| "collapse_spaces (c # cs) =
     (if is_space c then CHR '' '' # collapse_spaces (dropWhile is_space cs)
      else c # collapse_spaces cs)"
  by pat_completeness auto
termination
  by (relation "measure length") (auto simp: length_dropWhile_le less_Suc_eq_le)

definition OS_SS_ALIASES :: "string list" where
  "OS_SS_ALIASES = [''OS/SS'', ''OSSS'', ''OS-SS'', ''OS & SS'', ''OS AND SS'']"

definition BCG_165_BNS :: "string list" where
  "BCG_165_BNS = [''1651'', ''1652'', ''1653'', ''1654'', ''1657'', ''1658'', ''1659'']"

definition normalizeBn :: "string \<Rightarrow> string" where
  "normalizeBn raw =
     (let s = collapse_spaces (toUpperCase (trim raw))
      in if s \<in> set OS_SS_ALIASES then ''OS/SS'' else s)"

datatype GroupKey = G165_BCG | OTHER

definition groupForBn :: "string \<Rightarrow> GroupKey" where
  "groupForBn rawBn =
     (let bn = normalizeBn rawBn
      in if bn = ''OS/SS'' then G165_BCG
         else if bn \<in> set BCG_165_BNS then G165_BCG
         else OTHER)"

subsection \<open>Rows\<close>

text \<open>
  \<^verbatim>\<open>TrackerRow\<close>, as it arrives: the numeric fields are whatever the caller stored there.
  An absent \<^verbatim>\<open>destroyedManual\<close> is \<open>Undefined\<close>, an absent \<^verbatim>\<open>destroyedByDay\<close> is
  \<open>NotArr Undefined\<close>.
\<close>

record TrackerRow =
  in_id :: string
  in_bn :: string
  in_equipmentType :: string
  in_onHand :: jsval
  in_dailyAttritionPct :: jsval
  in_destroyedManual :: jsval
  in_destroyedByDay :: arrfield

text \<open>
  \<^verbatim>\<open>ComputedRow\<close>: the row with \<^verbatim>\<open>bn\<close>, \<^verbatim>\<open>onHand\<close> and \<^verbatim>\<open>destroyedManual\<close> overwritten and the
  computed fields added. The counts are integers, \<^verbatim>\<open>null\<close> is \<open>None\<close>.
\<close>

record ComputedRow =
  c_rowId :: string
  c_bn :: string
  c_equipmentType :: string
  c_onHand :: int
  c_dailyAttritionPct :: jsval
  c_destroyedManual :: int
  c_destroyedByDay :: arrfield
  c_destroyedAttrition :: int
  c_destroyed :: int
  c_remaining :: int
  c_combatPowerPct :: real
  c_daysTo25Pct :: "int option"
  c_destroyedManualActive :: int
  c_destroyedManualTotal :: int

record BnSummary =
  s_bn :: string
  s_onHand :: int
  s_remaining :: int
  s_destroyed :: int
  s_combatPowerPct :: real
  s_daysTo25Pct :: "int option"

record GroupSummary =
  g_group :: GroupKey
  g_onHand :: int
  g_remaining :: int
  g_destroyed :: int
  g_combatPowerPct :: real
  g_daysTo25Pct :: "int option"

record Opts =
  opt_day :: jsval
  opt_useAttrition :: "bool option"
  opt_manualWins :: "bool option"

record Computed =
  out_computedRows :: "ComputedRow list"
  out_bnSummaries :: "BnSummary list"
  out_groupSummaries :: "GroupSummary list"
  out_day :: int

definition MAX_SAFE_INTEGER :: int where
  "MAX_SAFE_INTEGER = 9007199254740991"

definition normalizeDestroyedByDay :: "arrfield \<Rightarrow> int list" where
  "normalizeDestroyedByDay arr =
     (let base = (case arr of Arr xs \<Rightarrow> xs | NotArr v \<Rightarrow> [])
      in map (\<lambda>i. clamp (round_half_up (safeNum (at_index base i))) 0 MAX_SAFE_INTEGER)
           [0 ..< 5])"

text \<open>
  The two manual counts of a row before they are clamped to the on-hand count: the pair
  (\<^verbatim>\<open>destroyedManualActive\<close>, \<^verbatim>\<open>destroyedManualTotal\<close>) of the local variables.
\<close>

definition manualCounts :: "TrackerRow \<Rightarrow> int \<Rightarrow> int \<times> int" where
  "manualCounts row day =
     (case in_destroyedByDay row of
        Arr xs \<Rightarrow>
          (let byDay = normalizeDestroyedByDay (Arr xs)
           in (sum_list (take (nat day) byDay), sum_list byDay))
      | NotArr v \<Rightarrow>
          (let total = max 0 \<lfloor>safeNum (nullish (in_destroyedManual row) (NumV (Fin 0)))\<rfloor>
           in (total, total)))"

text \<open>
  The callback of \<^verbatim>\<open>rows.map\<close> in \<^verbatim>\<open>computeRows\<close>. Its local constants \<^verbatim>\<open>onHand\<close>, \<^verbatim>\<open>manual\<close>,
  \<^verbatim>\<open>destroyedAttrition\<close> and \<^verbatim>\<open>destroyed\<close> are functions of the row, the day and the two
  switches.
\<close>

definition onHandOf :: "TrackerRow \<Rightarrow> int" where
  "onHandOf row = max 0 \<lfloor>safeNum (in_onHand row)\<rfloor>"

definition manualOf :: "TrackerRow \<Rightarrow> int \<Rightarrow> int" where
  "manualOf row day = clamp (fst (manualCounts row day)) 0 (onHandOf row)"

text \<open>
  \<^verbatim>\<open>clamp(Math.round(onHand - rem), 0, onHand)\<close>. The start given to \<^verbatim>\<open>remainingAfterDays\<close> is
  finite, so \<^verbatim>\<open>rem\<close> and the difference are finite: the other case is never reached.
\<close>

definition attritionOf :: "bool \<Rightarrow> TrackerRow \<Rightarrow> int \<Rightarrow> int" where
  "attritionOf useAttrition row day =
     (if useAttrition then
        (let rem = remainingAfterDays (Fin (of_int (onHandOf row))) (in_dailyAttritionPct row)
                     (NumV (Fin (of_int day)))
         in case js_sub (Fin (of_int (onHandOf row))) rem of
              Fin x \<Rightarrow> clamp (round_half_up x) 0 (onHandOf row)
            | _ \<Rightarrow> 0)
      else 0)"

definition destroyedOf :: "bool \<Rightarrow> bool \<Rightarrow> TrackerRow \<Rightarrow> int \<Rightarrow> int" where
  "destroyedOf useAttrition manualWins row day =
     (if useAttrition
      then (if manualWins then max (manualOf row day) (attritionOf useAttrition row day)
            else attritionOf useAttrition row day)
      else manualOf row day)"

definition computeRow :: "int \<Rightarrow> bool \<Rightarrow> bool \<Rightarrow> TrackerRow \<Rightarrow> ComputedRow" where
  "computeRow day useAttrition manualWins row =
     \<lparr> c_rowId = in_id row,
       c_bn = normalizeBn (in_bn row),
       c_equipmentType = in_equipmentType row,
       c_onHand = onHandOf row,
       c_dailyAttritionPct = in_dailyAttritionPct row,
       c_destroyedManual = manualOf row day,
       c_destroyedByDay = in_destroyedByDay row,
       c_destroyedAttrition = attritionOf useAttrition row day,
       c_destroyed = destroyedOf useAttrition manualWins row day,
       c_remaining = max 0 (onHandOf row - destroyedOf useAttrition manualWins row day),
       c_combatPowerPct =
         (if onHandOf row > 0
          then (of_int (max 0 (onHandOf row - destroyedOf useAttrition manualWins row day))
                  / of_int (onHandOf row)) * 100
          else 0),
       c_daysTo25Pct =
         (if onHandOf row > 0
          then daysToReachFraction (in_dailyAttritionPct row) (Fin (1 / 4))
          else None),
       c_destroyedManualActive = manualOf row day,
       c_destroyedManualTotal = clamp (snd (manualCounts row day)) 0 (onHandOf row) \<rparr>"

subsection \<open>Rollups\<close>

text \<open>
  \<^verbatim>\<open>bnMap\<close> is a \<^verbatim>\<open>Map\<close>, which keeps its keys in the order of their first insertion: an
  association list, updated in place. A row whose canonical identifier is empty is skipped.
\<close>

definition emptyBnSummary :: "string \<Rightarrow> BnSummary" where
  "emptyBnSummary k =
     \<lparr> s_bn = k, s_onHand = 0, s_remaining = 0, s_destroyed = 0,
       s_combatPowerPct = 0, s_daysTo25Pct = None \<rparr>"

definition bnStep :: "(string \<times> BnSummary) list \<Rightarrow> ComputedRow \<Rightarrow> (string \<times> BnSummary) list" where
  "bnStep bnMap r =
     (let k = normalizeBn (c_bn r)
      in if k = [] then bnMap
         else
           (let existing = (case map_of bnMap k of Some s \<Rightarrow> s | None \<Rightarrow> emptyBnSummary k)
            in AList.update k
                 (existing \<lparr> s_onHand := s_onHand existing + c_onHand r,
                             s_remaining := s_remaining existing + c_remaining r,
                             s_destroyed := s_destroyed existing + c_destroyed r \<rparr>)
                 bnMap))"

text \<open>The rate of a group of rows, weighted by their on-hand counts.\<close>

definition weightedAttrition :: "ComputedRow list \<Rightarrow> real" where
  "weightedAttrition rs =
     (let totalWeight = sum_list (map c_onHand rs)
      in if totalWeight > 0
         then sum_list (map (\<lambda>r. safeNum (c_dailyAttritionPct r) * of_int (c_onHand r)) rs)
                / of_int totalWeight
         else 0)"

text \<open>\<^verbatim>\<open>computedRows.filter((r) => normalizeBn(r.bn) === s.bn)\<close>: the rows of a unit.\<close>

definition bnRows :: "ComputedRow list \<Rightarrow> string \<Rightarrow> ComputedRow list" where
  "bnRows crs k = filter (\<lambda>r. normalizeBn (c_bn r) = k) crs"

definition bnFinish :: "ComputedRow list \<Rightarrow> BnSummary \<Rightarrow> BnSummary" where
  "bnFinish crs s =
     (let rs = bnRows crs (s_bn s)
      in s \<lparr> s_combatPowerPct :=
               (if s_onHand s > 0 then (of_int (s_remaining s) / of_int (s_onHand s)) * 100
                else 0),
             s_daysTo25Pct :=
               (if s_onHand s > 0
                then daysToReachFraction (NumV (Fin (weightedAttrition rs))) (Fin (1 / 4))
                else None) \<rparr>)"

definition emptyGroupSummary :: "GroupKey \<Rightarrow> GroupSummary" where
  "emptyGroupSummary g =
     \<lparr> g_group = g, g_onHand = 0, g_remaining = 0, g_destroyed = 0,
       g_combatPowerPct = 0, g_daysTo25Pct = None \<rparr>"

text \<open>
  \<^verbatim>\<open>groupMap.get(g)!\<close> is never absent: both keys are set before the loop. The model keeps
  the map unchanged where the source would fail on a missing key.
\<close>

definition groupStep :: "(GroupKey \<times> GroupSummary) list \<Rightarrow> ComputedRow \<Rightarrow> (GroupKey \<times> GroupSummary) list" where
  "groupStep groupMap r =
     (let g = groupForBn (c_bn r)
      in case map_of groupMap g of
           None \<Rightarrow> groupMap
         | Some existing \<Rightarrow>
             AList.update g
               (existing \<lparr> g_onHand := g_onHand existing + c_onHand r,
                           g_remaining := g_remaining existing + c_remaining r,
                           g_destroyed := g_destroyed existing + c_destroyed r \<rparr>)
               groupMap)"

text \<open>\<^verbatim>\<open>computedRows.filter((r) => groupForBn(r.bn) === g.group)\<close>: the rows of a group.\<close>

definition groupRows :: "ComputedRow list \<Rightarrow> GroupKey \<Rightarrow> ComputedRow list" where
  "groupRows crs k = filter (\<lambda>r. groupForBn (c_bn r) = k) crs"

definition groupFinish :: "ComputedRow list \<Rightarrow> GroupSummary \<Rightarrow> GroupSummary" where
  "groupFinish crs g =
     (let rs = groupRows crs (g_group g)
      in g \<lparr> g_combatPowerPct :=
               (if g_onHand g > 0 then (of_int (g_remaining g) / of_int (g_onHand g)) * 100
                else 0),
             g_daysTo25Pct :=
               (if g_onHand g > 0
                then daysToReachFraction (NumV (Fin (weightedAttrition rs))) (Fin (1 / 4))
                else None) \<rparr>)"

subsection \<open>\<^verbatim>\<open>computeRows\<close>\<close>

text \<open>
  The options object may be absent, and so may each of its fields: \<open>selectedDay\<close>,
  \<open>useAttritionOf\<close> and \<open>manualWinsOf\<close> are the three constants \<^verbatim>\<open>day\<close>, \<^verbatim>\<open>useAttrition\<close> and
  \<^verbatim>\<open>manualWins\<close> at the head of \<^verbatim>\<open>computeRows\<close>. The two lists of
  summaries are given in the order of the maps they come from. The source then sorts each
  list in place with \<^verbatim>\<open>localeCompare\<close>, whose order depends on the locale: the sort permutes
  the unit summaries and changes none of them, and it leaves the two group summaries in the
  order of insertion (\<^verbatim>\<open>"165_BCG"\<close> before \<^verbatim>\<open>"OTHER"\<close>). It is not modelled.
\<close>

definition selectedDay :: "Opts option \<Rightarrow> int" where
  "selectedDay opts =
     (let dayRaw =
            \<lfloor>safeNum (nullish (case opts of None \<Rightarrow> Undefined | Some ops \<Rightarrow> opt_day ops)
                        (NumV (Fin 1)))\<rfloor>
      in clamp dayRaw 1 5)"

definition useAttritionOf :: "Opts option \<Rightarrow> bool" where
  "useAttritionOf opts =
     (case opts of None \<Rightarrow> True
      | Some ops \<Rightarrow> (case opt_useAttrition ops of None \<Rightarrow> True | Some b \<Rightarrow> b))"

definition manualWinsOf :: "Opts option \<Rightarrow> bool" where
  "manualWinsOf opts =
     (case opts of None \<Rightarrow> True
      | Some ops \<Rightarrow> (case opt_manualWins ops of None \<Rightarrow> True | Some b \<Rightarrow> b))"

definition computeRows :: "TrackerRow list \<Rightarrow> Opts option \<Rightarrow> Computed" where
  "computeRows rows opts =
     (let day = selectedDay opts;
          useAttrition = useAttritionOf opts;
          manualWins = manualWinsOf opts;
          crs = map (computeRow day useAttrition manualWins) rows;
          bnMap = foldl bnStep [] crs;
          groupMap =
            foldl groupStep
              [(G165_BCG, emptyGroupSummary G165_BCG), (OTHER, emptyGroupSummary OTHER)] crs
      in \<lparr> out_computedRows = crs,
           out_bnSummaries = map (bnFinish crs) (map snd bnMap),
           out_groupSummaries = map (groupFinish crs) (map snd groupMap),
           out_day = day \<rparr>)"

section \<open>Rate inference (\<^verbatim>\<open>page.tsx\<close>)\<close>

text \<open>\<^verbatim>\<open>n || 0\<close> on a number: \<^verbatim>\<open>NaN\<close> and zero are the falsy numbers.\<close>

fun or_zero :: "number \<Rightarrow> number" where
  "or_zero NaN = Fin 0"
| "or_zero n = n"

text \<open>
  \<^verbatim>\<open>clampInt(n, min, max)\<close> with integer bounds:
  \<^verbatim>\<open>Math.max(min, Math.min(max, Math.floor(Number(n) || 0)))\<close>. The floor of an infinity is
  that infinity, which the bounds then replace; \<^verbatim>\<open>NaN\<close> does not get past \<^verbatim>\<open>|| 0\<close>, so the last
  case is never reached.
\<close>

definition clampInt :: "jsval \<Rightarrow> int \<Rightarrow> int \<Rightarrow> int" where
  "clampInt n lo hi =
     (case Math_floor (or_zero (Number n)) of
        Fin x \<Rightarrow> max lo (min hi \<lfloor>x\<rfloor>)
      | PosInfinity \<Rightarrow> max lo hi
      | NegInfinity \<Rightarrow> lo
      | NaN \<Rightarrow> lo)"

text \<open>
  The page has a normalizer of its own, with \<^verbatim>\<open>Number\<close> where the engine has \<^verbatim>\<open>safeNum\<close>:
  \<^verbatim>\<open>Math.max(0, Math.floor(Number(base[i] ?? 0)))\<close>.
\<close>

definition page_normalizeDestroyedByDay :: "arrfield \<Rightarrow> number list" where
  "page_normalizeDestroyedByDay arr =
     (let base = (case arr of Arr xs \<Rightarrow> xs | NotArr v \<Rightarrow> [])
      in map (\<lambda>i. Math_max (Fin 0)
                    (Math_floor (Number (nullish (at_index base i) (NumV (Fin 0))))))
           [0 ..< 5])"

definition inferDailyAttritionPct :: "jsval \<Rightarrow> arrfield \<Rightarrow> jsval \<Rightarrow> number" where
  "inferDailyAttritionPct onHand destroyedByDay day =
     (let oh = Math_max (Fin 0) (Math_floor (or_zero (Number onHand)));
          d = clampInt day 1 5
      in if js_le oh (Fin 0) then Fin 0
         else
           (let byDay = page_normalizeDestroyedByDay destroyedByDay;
                cumDestroyed = foldl js_add (Fin 0) (take (nat d) byDay);
                remaining = Math_max (Fin 0) (js_sub oh cumDestroyed);
                frac = js_div remaining oh
            in if js_le frac (Fin 0) then Fin 100
               else if js_ge frac (Fin 1) then Fin 0
               else
                 (let p = js_sub (Fin 1)
                            (Math_pow frac (js_div (Fin 1) (Fin (of_int d))))
                  in Math_max (Fin 0) (Math_min (Fin 100) (js_mul p (Fin 100))))))"





section \<open>Invariants of the two rollup loops\<close>





section \<open>The arithmetic of doubles\<close>

text \<open>
  The functions above compute on exact reals and on integers of any size. A JavaScript
  number is a double: the result of every operation is rounded to 53 significant bits. Two
  properties of the program depend on that rounding, the accounting of the counts and the
  round trip of rate inference and decay. For them the functions involved are given a
  second time, with the suffix \<open>_d\<close>, every operation rounded as the machine rounds it.

  \<open>fl x\<close> is the double nearest to the real \<open>x\<close>, a tie going to the neighbour whose
  significand is even. The exponent is not bounded: overflow to \<^verbatim>\<open>Infinity\<close> (beyond
  \<open>1.8e308\<close>) and the gradual loss of precision below \<open>2.2e-308\<close> are not modelled, nor is
  the sign of zero.
\<close>

definition round_even :: "real \<Rightarrow> int" where
  "round_even y =
     (let f = \<lfloor>y\<rfloor>; r = y - of_int f
      in if r < 1 / 2 then f
         else if 1 / 2 < r then f + 1
         else if even f then f else f + 1)"

definition fl :: "real \<Rightarrow> real" where
  "fl x =
     (if x = 0 then 0
      else (let s = 2 powi (\<lfloor>log 2 \<bar>x\<bar>\<rfloor> - 52)
            in of_int (round_even (x / s)) * s))"

text \<open>The result of an operation, rounded when it is finite.\<close>

fun rounded :: "number \<Rightarrow> number" where
  "rounded (Fin x) = Fin (fl x)"
| "rounded n = n"

text \<open>\<^verbatim>\<open>a + b\<close>, \<^verbatim>\<open>a - b\<close>, \<^verbatim>\<open>a * b\<close> and \<^verbatim>\<open>a / b\<close> on doubles.\<close>

definition d_add :: "number \<Rightarrow> number \<Rightarrow> number" where
  "d_add a b = rounded (js_add a b)"

definition d_sub :: "number \<Rightarrow> number \<Rightarrow> number" where
  "d_sub a b = rounded (js_sub a b)"

definition d_mul :: "number \<Rightarrow> number \<Rightarrow> number" where
  "d_mul a b = rounded (js_mul a b)"

definition d_div :: "number \<Rightarrow> number \<Rightarrow> number" where
  "d_div a b = rounded (js_div a b)"

text \<open>
  A count is a double that holds an integer. \<open>dbl k\<close> is the count that an operation
  returns when its exact result is the integer \<open>k\<close>: \<open>k\<close> itself up to \<open>2 ^ 53\<close>, the nearest
  double beyond. \<open>dadd\<close> is \<^verbatim>\<open>+\<close> on two counts.
\<close>

definition dbl :: "int \<Rightarrow> int" where
  "dbl k = \<lfloor>fl (of_int k)\<rfloor>"


text \<open>
  ECMAScript leaves the precision of \<^verbatim>\<open>Math.pow\<close> and \<^verbatim>\<open>Math.log\<close> to the implementation
  ("implementation-approximated"). They are parameters here: a platform gives the double
  that \<^verbatim>\<open>Math.pow(b, e)\<close> returns for a positive \<open>b\<close> and a non-zero \<open>e\<close>, and the one that
  \<^verbatim>\<open>Math.log(x)\<close> returns for a positive \<open>x\<close>. The other cases are fixed by the language.
\<close>

record Platform =
  approx_pow :: "real \<Rightarrow> real \<Rightarrow> real"
  approx_log :: "real \<Rightarrow> real"

definition pow_fin_d :: "Platform \<Rightarrow> real \<Rightarrow> real \<Rightarrow> number" where
  "pow_fin_d P b e =
     (if e = 0 then Fin 1
      else if b = 0 then (if 0 < e then Fin 0 else PosInfinity)
      else if 0 < b then Fin (approx_pow P b e)
      else if e = of_int \<lfloor>e\<rfloor>
        then Fin ((if even \<lfloor>e\<rfloor> then 1 else - 1) * approx_pow P (- b) e)
      else NaN)"

fun Math_pow_d :: "Platform \<Rightarrow> number \<Rightarrow> number \<Rightarrow> number" where
  "Math_pow_d P (Fin b) (Fin e) = pow_fin_d P b e"
| "Math_pow_d P b e = Math_pow b e"


text \<open>
  A platform is accurate when its \<^verbatim>\<open>Math.pow\<close> is within 8 units in the last place, a
  relative error of \<open>2 ^ -50\<close>, of the exact power, on the bases and exponents that rate
  inference and decay use (a base in \<open>(0, 1]\<close>, a positive exponent). The engines in use
  are within one unit. The platform that rounds the exact power and logarithm is one such.
\<close>

definition pow_accurate :: "Platform \<Rightarrow> bool" where
  "pow_accurate P \<longleftrightarrow>
     (\<forall>b e. 0 < b \<and> b \<le> 1 \<and> 0 < e \<longrightarrow> \<bar>approx_pow P b e - b powr e\<bar> \<le> b powr e / 2 ^ 50)"


subsection \<open>The engine on doubles\<close>















subsection \<open>Rate inference on doubles\<close>

definition inferDailyAttritionPct_d :: "Platform \<Rightarrow> jsval \<Rightarrow> arrfield \<Rightarrow> jsval \<Rightarrow> number" where
  "inferDailyAttritionPct_d P onHand destroyedByDay day =
     (let oh = Math_max (Fin 0) (Math_floor (or_zero (Number onHand)));
          d = clampInt day 1 5
      in if js_le oh (Fin 0) then Fin 0
         else
           (let byDay = page_normalizeDestroyedByDay destroyedByDay;
                cumDestroyed = foldl d_add (Fin 0) (take (nat d) byDay);
                remaining = Math_max (Fin 0) (d_sub oh cumDestroyed);
                frac = d_div remaining oh
            in if js_le frac (Fin 0) then Fin 100
               else if js_ge frac (Fin 1) then Fin 0
               else
                 (let p = d_sub (Fin 1)
                            (Math_pow_d P frac (d_div (Fin 1) (Fin (of_int d))))
                  in Math_max (Fin 0) (Math_min (Fin 100) (d_mul p (Fin 100))))))"

subsection \<open>Invariants of the two rollup loops on doubles\<close>





subsection \<open>Rows of counts\<close>



section \<open>The decay model\<close>

lemma safeNum_Fin [simp]: "safeNum (NumV (Fin x)) = x"
  by (simp add: safeNum_def)

lemma Math_pow_int:
  assumes "0 < b" and "0 \<le> d"
  shows "Math_pow (Fin b) (Fin (of_int d)) = Fin (b ^ nat d)"
proof (cases "d = 0")
  case True
  then show ?thesis by simp
next
  case False
  with assms have "b powi d = b ^ nat d"
    by (simp add: power_int_def)
  with False assms show ?thesis
    by (simp add: pow_fin_def)
qed

lemma remainingAfterDays_unfold:
  "remainingAfterDays start rate day =
     (if js_le start (Fin 0) then Fin 0
      else if safeNum rate / 100 \<le> 0 then start
      else if 1 \<le> safeNum rate / 100 then Fin 0
      else js_mul start (Fin ((1 - safeNum rate / 100) ^ nat \<lfloor>safeNum day\<rfloor>)))"
proof -
  have "Math_pow (Fin (1 - safeNum rate / 100)) (Fin (of_int (max 0 \<lfloor>safeNum day\<rfloor>)))
        = Fin ((1 - safeNum rate / 100) ^ nat \<lfloor>safeNum day\<rfloor>)"
    if "safeNum rate / 100 < 1"
    using that Math_pow_int [of "1 - safeNum rate / 100" "max 0 \<lfloor>safeNum day\<rfloor>"]
    by (simp add: max_def)
  then show ?thesis
    by (simp add: remainingAfterDays_def Let_def not_le)
qed

text \<open>
  Claim C3. For a rate whose fraction is \<open>p = safeNum rate / 100\<close> (a rate that is not a
  finite number counts as 0) and a day count \<open>t \<ge> 0\<close>, the decay model returns, by the first
  case that applies: 0 when \<open>start \<le> 0\<close>; \<open>start\<close> unchanged when \<open>p \<le> 0\<close>; 0 when \<open>p \<ge> 1\<close>;
  and \<open>start * (1 - p) ^ floor t\<close> otherwise, that is when \<open>0 < p < 1\<close> and \<open>start > 0\<close>. The
  start may be any number, infinite or \<^verbatim>\<open>NaN\<close> included.
\<close>

theorem remainingAfterDays_model:
  "0 \<le> t \<Longrightarrow>
   remainingAfterDays start rate (NumV (Fin t)) =
     (if js_le start (Fin 0) then Fin 0
      else if safeNum rate / 100 \<le> 0 then start
      else if 1 \<le> safeNum rate / 100 then Fin 0
      else js_mul start (Fin ((1 - safeNum rate / 100) ^ nat \<lfloor>t\<rfloor>)))"
  by (simp add: remainingAfterDays_unfold)

theorem remainingAfterDays_model_witness:
  "(0::real) \<le> 5 / 2
   \<and> remainingAfterDays (Fin 100) (NumV (Fin 50)) (NumV (Fin (5 / 2))) = Fin 25"
  using remainingAfterDays_model [of "5 / 2" "Fin 100" "NumV (Fin 50)"]
  by (simp add: power_divide)

lemma js_le_refl: "a \<noteq> NaN \<Longrightarrow> js_le a a"
  by (cases a) simp_all

lemma js_mul_pos_mono:
  assumes "a \<noteq> NaN" "\<not> js_le a (Fin 0)" "0 < y" "y \<le> z"
  shows "js_le (js_mul a (Fin y)) (js_mul a (Fin z))"
  using assms by (cases a) (simp_all add: signed_inf_def)

text \<open>
  Claim C8. For a fixed on-hand count (any number but \<^verbatim>\<open>NaN\<close>) and a fixed rate (any value),
  the remaining count does not increase with the day: a later day gives at most what an
  earlier day gives. The days range over the reals, so over the non-negative integers too.
\<close>

theorem remainingAfterDays_mono:
  assumes "start \<noteq> NaN" and "d1 \<le> d2"
  shows "js_le (remainingAfterDays start rate (NumV (Fin d2)))
               (remainingAfterDays start rate (NumV (Fin d1)))"
proof -
  let ?p = "safeNum rate / 100"
  have le: "nat \<lfloor>d1\<rfloor> \<le> nat \<lfloor>d2\<rfloor>"
    using assms(2) by (simp add: floor_mono nat_mono)
  have pw: "(1 - ?p) ^ nat \<lfloor>d2\<rfloor> \<le> (1 - ?p) ^ nat \<lfloor>d1\<rfloor>" "0 < (1 - ?p) ^ nat \<lfloor>d2\<rfloor>"
    if "0 < ?p" "?p < 1"
    using that le by (simp_all add: power_decreasing)
  show ?thesis
    using assms(1) pw js_mul_pos_mono [of start "(1 - ?p) ^ nat \<lfloor>d2\<rfloor>" "(1 - ?p) ^ nat \<lfloor>d1\<rfloor>"]
    by (simp add: remainingAfterDays_unfold js_le_refl not_le)
qed

theorem remainingAfterDays_mono_witness:
  "Fin 100 \<noteq> NaN \<and> (1::real) \<le> 3
   \<and> js_le (remainingAfterDays (Fin 100) (NumV (Fin 50)) (NumV (Fin 3)))
            (remainingAfterDays (Fin 100) (NumV (Fin 50)) (NumV (Fin 1)))
   \<and> remainingAfterDays (Fin 100) (NumV (Fin 50)) (NumV (Fin 3)) = Fin (25 / 2)
   \<and> remainingAfterDays (Fin 100) (NumV (Fin 50)) (NumV (Fin 1)) = Fin 50"
  using remainingAfterDays_mono [of "Fin 100" 1 3 "NumV (Fin 50)"]
  by (simp add: remainingAfterDays_unfold power_divide)

section \<open>The threshold projector\<close>

text \<open>
  Claim C7. \<^verbatim>\<open>daysToReachFraction\<close> returns 0 for the target 0 whatever the rate; it returns
  \<^verbatim>\<open>null\<close> (unreachable) for the rate 0 and a target strictly between 0 and 1; a target
  \<open>\<ge> 1\<close> is unreachable whatever the rate; a rate fraction \<open>p \<ge> 1\<close> gives 0 unless the target
  is \<open>\<ge> 1\<close>; and where none of the four guards applies, a computed day that is not finite
  or is negative gives unreachable.
\<close>

theorem daysToReachFraction_edges:
  "daysToReachFraction rate0 (Fin 0) = Some 0
   \<and> (0 < f \<and> f < 1 \<longrightarrow> daysToReachFraction (NumV (Fin 0)) (Fin f) = None)
   \<and> (js_ge target1 (Fin 1) \<longrightarrow> daysToReachFraction rate1 target1 = None)
   \<and> (1 \<le> safeNum rate2 / 100 \<and> \<not> js_ge target2 (Fin 1)
        \<longrightarrow> daysToReachFraction rate2 target2 = Some 0)
   \<and> (\<not> js_le target (Fin 0) \<and> \<not> js_ge target (Fin 1)
        \<and> 0 < safeNum rate / 100 \<and> safeNum rate / 100 < 1
        \<and> (let d = js_div (Math_log target) (Math_log (Fin (1 - safeNum rate / 100)))
           in \<not> isFinite d \<or> js_lt d (Fin 0))
        \<longrightarrow> daysToReachFraction rate target = None)"
proof (intro conjI impI)
  show "daysToReachFraction rate0 (Fin 0) = Some 0"
    by (simp add: daysToReachFraction_def)
next
  assume "0 < f \<and> f < 1"
  then show "daysToReachFraction (NumV (Fin 0)) (Fin f) = None"
    by (simp add: daysToReachFraction_def js_ge_def)
next
  assume "js_ge target1 (Fin 1)"
  moreover from this have "\<not> js_le target1 (Fin 0)"
    by (cases target1) (simp_all add: js_ge_def)
  ultimately show "daysToReachFraction rate1 target1 = None"
    by (simp add: daysToReachFraction_def)
next
  assume "1 \<le> safeNum rate2 / 100 \<and> \<not> js_ge target2 (Fin 1)"
  then show "daysToReachFraction rate2 target2 = Some 0"
    by (simp add: daysToReachFraction_def Let_def)
next
  assume a: "\<not> js_le target (Fin 0) \<and> \<not> js_ge target (Fin 1)
        \<and> 0 < safeNum rate / 100 \<and> safeNum rate / 100 < 1
        \<and> (let d = js_div (Math_log target) (Math_log (Fin (1 - safeNum rate / 100)))
           in \<not> isFinite d \<or> js_lt d (Fin 0))"
  define d where "d = js_div (Math_log target) (Math_log (Fin (1 - safeNum rate / 100)))"
  from a have nd: "\<not> isFinite d \<or> js_lt d (Fin 0)"
    by (simp only: Let_def d_def)
  from a have "daysToReachFraction rate target =
      (case d of Fin x \<Rightarrow> (if x < 0 then None else Some \<lceil>x\<rceil>) | _ \<Rightarrow> None)"
    by (simp add: daysToReachFraction_def Let_def d_def del: Math_log.simps)
  with nd show "daysToReachFraction rate target = None"
    by (cases d) simp_all
qed

theorem daysToReachFraction_edges_witness:
  "daysToReachFraction (NumV (Fin 30)) (Fin 0) = Some 0
   \<and> daysToReachFraction (NumV (Fin 0)) (Fin (1 / 4)) = None
   \<and> daysToReachFraction (NumV (Fin 30)) (Fin 1) = None
   \<and> daysToReachFraction (NumV (Fin 100)) (Fin (1 / 4)) = Some 0
   \<and> daysToReachFraction (NumV (Fin 30)) NaN = None"
  using daysToReachFraction_edges
          [of "NumV (Fin 30)" "1 / 4" "Fin 1" "NumV (Fin 30)" "NumV (Fin 100)" "Fin (1 / 4)"
              NaN "NumV (Fin 30)"]
  by (simp add: js_ge_def)

text \<open>
  Between the guards the projector is the closed form: the least whole number of days
  \<open>d\<close> with \<open>(1 - p) ^ d \<le> target\<close> is the ceiling of \<open>ln target / ln (1 - p)\<close>.
\<close>

lemma daysToReachFraction_interior:
  assumes "0 < t" "t < 1" "0 < safeNum rate / 100" "safeNum rate / 100 < 1"
  shows "daysToReachFraction rate (Fin t) = Some \<lceil>ln t / ln (1 - safeNum rate / 100)\<rceil>"
proof -
  have "ln t < 0" "ln (1 - safeNum rate / 100) < 0"
    using assms by simp_all
  then have "0 < ln t / ln (1 - safeNum rate / 100)"
    by (simp add: divide_neg_neg)
  with assms \<open>ln (1 - safeNum rate / 100) < 0\<close> show ?thesis
    by (simp add: daysToReachFraction_def Let_def js_ge_def not_le)
qed

section \<open>The rows\<close>

lemma clamp_lower: "lo \<le> hi \<Longrightarrow> lo \<le> clamp n lo hi"
  by (simp add: clamp_def)

lemma clamp_upper: "lo \<le> hi \<Longrightarrow> clamp n lo hi \<le> hi"
  by (simp add: clamp_def)

lemma remainingAfterDays_Fin: "\<exists>y. remainingAfterDays (Fin x) rate day = Fin y"
  by (simp add: remainingAfterDays_unfold)

lemma onHandOf_nonneg: "0 \<le> onHandOf row"
  by (simp add: onHandOf_def)

lemma manualOf_bounds: "0 \<le> manualOf row day \<and> manualOf row day \<le> onHandOf row"
  by (simp add: manualOf_def clamp_lower clamp_upper onHandOf_nonneg)

lemma attritionOf_bounds:
  "0 \<le> attritionOf ua row day \<and> attritionOf ua row day \<le> onHandOf row"
proof -
  obtain y where "remainingAfterDays (Fin (of_int (onHandOf row))) (in_dailyAttritionPct row)
                    (NumV (Fin (of_int day))) = Fin y"
    using remainingAfterDays_Fin by blast
  then show ?thesis
    by (simp add: attritionOf_def js_sub_def clamp_lower clamp_upper onHandOf_nonneg)
qed

lemma computedRows_eq:
  "out_computedRows (computeRows rows opts)
     = map (computeRow (selectedDay opts) (useAttritionOf opts) (manualWinsOf opts)) rows"
  by (simp add: computeRows_def Let_def)


section \<open>The rollups\<close>






















section \<open>The default rows, computed\<close>

lemma computeRow_sel:
  "c_bn (computeRow day ua mw row) = normalizeBn (in_bn row)"
  "c_onHand (computeRow day ua mw row) = onHandOf row"
  "c_destroyed (computeRow day ua mw row) = destroyedOf ua mw row day"
  "c_remaining (computeRow day ua mw row) = max 0 (onHandOf row - destroyedOf ua mw row day)"
  "c_destroyedAttrition (computeRow day ua mw row) = attritionOf ua row day"
  "c_destroyedManualActive (computeRow day ua mw row) = manualOf row day"
  "c_destroyedManualTotal (computeRow day ua mw row)
     = clamp (snd (manualCounts row day)) 0 (onHandOf row)"
  by (simp_all add: computeRow_def)




lemmas count_eval = onHandOf_def manualOf_def attritionOf_def destroyedOf_def manualCounts_def
  normalizeDestroyedByDay_def at_index_def clamp_def round_half_up_def MAX_SAFE_INTEGER_def
  remainingAfterDays_unfold js_sub_def upt_rec

lemmas infer_eval = inferDailyAttritionPct_def clampInt_def page_normalizeDestroyedByDay_def
  at_index_def js_sub_def js_ge_def pow_fin_def upt_rec

lemma DEFAULT_rates:
  "inferDailyAttritionPct (NumV (Fin 44))
     (Arr [NumV (Fin 0), NumV (Fin 1), NumV (Fin 0), NumV (Fin 0), NumV (Fin 0)])
     (NumV (Fin 1)) = Fin 0"
  "inferDailyAttritionPct (NumV (Fin 33))
     (Arr [NumV (Fin 0), NumV (Fin 0), NumV (Fin 2), NumV (Fin 0), NumV (Fin 0)])
     (NumV (Fin 1)) = Fin 0"
  "inferDailyAttritionPct (NumV (Fin 44))
     (Arr [NumV (Fin 1), NumV (Fin 0), NumV (Fin 0), NumV (Fin 0), NumV (Fin 0)])
     (NumV (Fin 1)) = Fin (25 / 11)"
  by (simp_all add: infer_eval)









section \<open>Rollup sums\<close>



section \<open>Reconciliation of manual and modeled losses\<close>

lemma computedRows_nth:
  "i < length rows \<Longrightarrow>
   out_computedRows (computeRows rows opts) ! i
     = computeRow (selectedDay opts) (useAttritionOf opts) (manualWinsOf opts) (rows ! i)"
  by (simp add: computedRows_eq)

lemma attritionOf_enabled:
  "\<exists>rem. remainingAfterDays (Fin (of_int (onHandOf row))) (in_dailyAttritionPct row)
            (NumV (Fin (of_int day))) = Fin rem
         \<and> attritionOf True row day
             = clamp (round_half_up (of_int (onHandOf row) - rem)) 0 (onHandOf row)"
proof -
  obtain y where "remainingAfterDays (Fin (of_int (onHandOf row))) (in_dailyAttritionPct row)
                    (NumV (Fin (of_int day))) = Fin y"
    using remainingAfterDays_Fin by blast
  then show ?thesis
    by (simp add: attritionOf_def js_sub_def)
qed

text \<open>
  Claim C6. For the row at any index of the input: with modeling enabled and the
  manual-wins policy, the final destroyed count is the larger of the manual and the modeled
  count; with modeling enabled and the other policy, it is the modeled count; with modeling
  disabled, it is the manual count. The manual count is the cumulative manual loss through
  the selected day clamped to \<open>[0, onHand]\<close>, the modeled count is
  \<open>round (onHand - remaining)\<close> clamped to \<open>[0, onHand]\<close>.
\<close>

theorem reconcile_policy:
  assumes "i < length rows"
    and "r = out_computedRows (computeRows rows opts) ! i"
    and "row = rows ! i"
  shows "c_destroyed r
           = (if useAttritionOf opts
              then (if manualWinsOf opts
                    then max (c_destroyedManualActive r) (c_destroyedAttrition r)
                    else c_destroyedAttrition r)
              else c_destroyedManualActive r)
         \<and> c_destroyedManualActive r
             = clamp (fst (manualCounts row (selectedDay opts))) 0 (c_onHand r)
         \<and> (useAttritionOf opts \<longrightarrow>
              (\<exists>rem. remainingAfterDays (Fin (of_int (c_onHand r))) (in_dailyAttritionPct row)
                        (NumV (Fin (of_int (selectedDay opts)))) = Fin rem
                     \<and> c_destroyedAttrition r
                         = clamp (round_half_up (of_int (c_onHand r) - rem)) 0 (c_onHand r)))
         \<and> 0 \<le> c_destroyedManualActive r \<and> c_destroyedManualActive r \<le> c_onHand r
         \<and> 0 \<le> c_destroyedAttrition r \<and> c_destroyedAttrition r \<le> c_onHand r"
proof -
  from assms have r: "r = computeRow (selectedDay opts) (useAttritionOf opts)
                            (manualWinsOf opts) row"
    by (simp add: computedRows_nth)
  have policy: "c_destroyed r
           = (if useAttritionOf opts
              then (if manualWinsOf opts
                    then max (c_destroyedManualActive r) (c_destroyedAttrition r)
                    else c_destroyedAttrition r)
              else c_destroyedManualActive r)"
    by (simp add: r computeRow_sel destroyedOf_def)
  have manual: "c_destroyedManualActive r
             = clamp (fst (manualCounts row (selectedDay opts))) 0 (c_onHand r)"
    by (simp add: r computeRow_sel manualOf_def)
  have modeled: "\<exists>rem. remainingAfterDays (Fin (of_int (c_onHand r))) (in_dailyAttritionPct row)
                        (NumV (Fin (of_int (selectedDay opts)))) = Fin rem
                     \<and> c_destroyedAttrition r
                         = clamp (round_half_up (of_int (c_onHand r) - rem)) 0 (c_onHand r)"
    if "useAttritionOf opts"
    using that attritionOf_enabled [of row "selectedDay opts"]
    by (simp add: r computeRow_sel)
  have bounds: "0 \<le> c_destroyedManualActive r \<and> c_destroyedManualActive r \<le> c_onHand r
         \<and> 0 \<le> c_destroyedAttrition r \<and> c_destroyedAttrition r \<le> c_onHand r"
    using manualOf_bounds [of row "selectedDay opts"]
      attritionOf_bounds [of "useAttritionOf opts" row "selectedDay opts"]
    by (simp add: r computeRow_sel)
  from policy manual modeled bounds show ?thesis
    by blast
qed

lemmas opts_eval = selectedDay_def useAttritionOf_def manualWinsOf_def

theorem reconcile_policy_witness:
  "map (\<lambda>r. (c_destroyedManualActive r, c_destroyedAttrition r, c_destroyed r))
     (out_computedRows
        (computeRows
           [\<lparr> in_id = ''4'', in_bn = ''1651'', in_equipmentType = ''Type 96 MBT'',
              in_onHand = NumV (Fin 100), in_dailyAttritionPct = NumV (Fin 6),
              in_destroyedManual = Undefined,
              in_destroyedByDay =
                Arr [NumV (Fin 10), NumV (Fin 0), NumV (Fin 0), NumV (Fin 0), NumV (Fin 0)] \<rparr>]
           (Some \<lparr> opt_day = NumV (Fin 1), opt_useAttrition = Some True,
                    opt_manualWins = Some True \<rparr>)))
     = [(10, 6, 10)]
   \<and> map (\<lambda>r. (c_destroyedManualActive r, c_destroyedAttrition r, c_destroyed r))
     (out_computedRows
        (computeRows
           [\<lparr> in_id = ''4'', in_bn = ''1651'', in_equipmentType = ''Type 96 MBT'',
              in_onHand = NumV (Fin 100), in_dailyAttritionPct = NumV (Fin 6),
              in_destroyedManual = Undefined,
              in_destroyedByDay =
                Arr [NumV (Fin 10), NumV (Fin 0), NumV (Fin 0), NumV (Fin 0), NumV (Fin 0)] \<rparr>]
           (Some \<lparr> opt_day = NumV (Fin 1), opt_useAttrition = Some True,
                    opt_manualWins = Some False \<rparr>)))
     = [(10, 6, 6)]"
proof -
  define row where "row = \<lparr> in_id = ''4'', in_bn = ''1651'', in_equipmentType = ''Type 96 MBT'',
              in_onHand = NumV (Fin 100), in_dailyAttritionPct = NumV (Fin 6),
              in_destroyedManual = Undefined,
              in_destroyedByDay =
                Arr [NumV (Fin 10), NumV (Fin 0), NumV (Fin 0), NumV (Fin 0), NumV (Fin 0)] \<rparr>"
  define wins where "wins = Some \<lparr> opt_day = NumV (Fin 1), opt_useAttrition = Some True,
                    opt_manualWins = Some True \<rparr>"
  define model where "model = Some \<lparr> opt_day = NumV (Fin 1), opt_useAttrition = Some True,
                    opt_manualWins = Some False \<rparr>"
  have flags: "selectedDay wins = 1" "useAttritionOf wins" "manualWinsOf wins"
    "selectedDay model = 1" "useAttritionOf model" "\<not> manualWinsOf model"
    by (simp_all add: wins_def model_def opts_eval clamp_def)
  have counts: "manualOf row 1 = 10" "attritionOf True row 1 = 6"
    by (simp_all add: row_def count_eval)
  have len: "0 < length [row]" by simp
  have fields: "c_destroyedManualActive (out_computedRows (computeRows [row] opts) ! 0) = 10"
      "c_destroyedAttrition (out_computedRows (computeRows [row] opts) ! 0) = 6"
    if "selectedDay opts = 1" "useAttritionOf opts" for opts
    using that counts by (simp_all add: computedRows_nth computeRow_sel)
  from reconcile_policy [OF len refl refl, of wins] flags
  have "c_destroyed (out_computedRows (computeRows [row] wins) ! 0)
          = max (c_destroyedManualActive (out_computedRows (computeRows [row] wins) ! 0))
                (c_destroyedAttrition (out_computedRows (computeRows [row] wins) ! 0))"
    by simp
  with fields [of wins] flags
  have w: "c_destroyed (out_computedRows (computeRows [row] wins) ! 0) = 10"
    by simp
  from reconcile_policy [OF len refl refl, of model] flags
  have "c_destroyed (out_computedRows (computeRows [row] model) ! 0)
          = c_destroyedAttrition (out_computedRows (computeRows [row] model) ! 0)"
    by simp
  with fields [of model] flags
  have m: "c_destroyed (out_computedRows (computeRows [row] model) ! 0) = 6"
    by simp
  have one: "out_computedRows (computeRows [row] opts)
               = [out_computedRows (computeRows [row] opts) ! 0]" for opts
    by (simp add: computedRows_eq)
  have "map (\<lambda>r. (c_destroyedManualActive r, c_destroyedAttrition r, c_destroyed r))
          (out_computedRows (computeRows [row] wins)) = [(10, 6, 10)]"
    using fields [of wins] flags w by (subst one) simp
  moreover
  have "map (\<lambda>r. (c_destroyedManualActive r, c_destroyedAttrition r, c_destroyed r))
          (out_computedRows (computeRows [row] model)) = [(10, 6, 6)]"
    using fields [of model] flags m by (subst one) simp
  ultimately show ?thesis
    unfolding row_def wins_def model_def by blast
qed

text \<open>
  Claim C10, amended. For a row whose \<^verbatim>\<open>destroyedByDay\<close> is absent or not an array, the two
  local counts of \<^verbatim>\<open>computeRows\<close> both equal \<open>max 0 (floor destroyedManual)\<close>, and the fields
  \<^verbatim>\<open>destroyedManualActive\<close> and \<^verbatim>\<open>destroyedManualTotal\<close> of the computed row both equal that
  value capped at the on-hand count, \<open>min onHand (max 0 (floor destroyedManual))\<close>, whatever
  the options and so whatever the selected day; a \<^verbatim>\<open>destroyedManual\<close> that is absent or not
  a finite number counts as 0.
\<close>

theorem legacy_manual_loss:
  assumes "i < length rows" and "in_destroyedByDay (rows ! i) = NotArr v"
  shows "manualCounts (rows ! i) (selectedDay opts)
           = (max 0 \<lfloor>safeNum (nullish (in_destroyedManual (rows ! i)) (NumV (Fin 0)))\<rfloor>,
              max 0 \<lfloor>safeNum (nullish (in_destroyedManual (rows ! i)) (NumV (Fin 0)))\<rfloor>)
         \<and> c_destroyedManualActive (out_computedRows (computeRows rows opts) ! i)
           = min (max 0 \<lfloor>safeNum (in_onHand (rows ! i))\<rfloor>)
               (max 0 \<lfloor>safeNum (nullish (in_destroyedManual (rows ! i)) (NumV (Fin 0)))\<rfloor>)
         \<and> c_destroyedManualTotal (out_computedRows (computeRows rows opts) ! i)
           = min (max 0 \<lfloor>safeNum (in_onHand (rows ! i))\<rfloor>)
               (max 0 \<lfloor>safeNum (nullish (in_destroyedManual (rows ! i)) (NumV (Fin 0)))\<rfloor>)"
  using assms
  by (simp add: computedRows_nth computeRow_sel manualOf_def manualCounts_def onHandOf_def
        clamp_def Let_def)

theorem legacy_manual_loss_witness:
  "c_destroyedManualActive
     (out_computedRows (computeRows [\<lparr> in_id = ''5'', in_bn = ''1651'', in_equipmentType = ''Type 96 MBT'',
              in_onHand = NumV (Fin 5), in_dailyAttritionPct = NumV (Fin 0),
              in_destroyedManual = NumV (Fin 10), in_destroyedByDay = NotArr Undefined \<rparr>] None) ! 0) = 5
   \<and> c_destroyedManualTotal
     (out_computedRows (computeRows [\<lparr> in_id = ''5'', in_bn = ''1651'', in_equipmentType = ''Type 96 MBT'',
              in_onHand = NumV (Fin 5), in_dailyAttritionPct = NumV (Fin 0),
              in_destroyedManual = NumV (Fin 10), in_destroyedByDay = NotArr Undefined \<rparr>] None) ! 0) = 5"
proof -
  define row where "row = \<lparr> in_id = ''5'', in_bn = ''1651'', in_equipmentType = ''Type 96 MBT'',
              in_onHand = NumV (Fin 5), in_dailyAttritionPct = NumV (Fin 0),
              in_destroyedManual = NumV (Fin 10), in_destroyedByDay = NotArr Undefined \<rparr>"
  have "0 < length [row]" by simp
  moreover have "in_destroyedByDay ([row] ! 0) = NotArr Undefined"
    by (simp add: row_def)
  ultimately have
    "manualCounts ([row] ! 0) (selectedDay None)
       = (max 0 \<lfloor>safeNum (nullish (in_destroyedManual ([row] ! 0)) (NumV (Fin 0)))\<rfloor>,
          max 0 \<lfloor>safeNum (nullish (in_destroyedManual ([row] ! 0)) (NumV (Fin 0)))\<rfloor>)
     \<and> c_destroyedManualActive (out_computedRows (computeRows [row] None) ! 0)
       = min (max 0 \<lfloor>safeNum (in_onHand ([row] ! 0))\<rfloor>)
           (max 0 \<lfloor>safeNum (nullish (in_destroyedManual ([row] ! 0)) (NumV (Fin 0)))\<rfloor>)
     \<and> c_destroyedManualTotal (out_computedRows (computeRows [row] None) ! 0)
       = min (max 0 \<lfloor>safeNum (in_onHand ([row] ! 0))\<rfloor>)
           (max 0 \<lfloor>safeNum (nullish (in_destroyedManual ([row] ! 0)) (NumV (Fin 0)))\<rfloor>)"
    by (rule legacy_manual_loss)
  then show ?thesis
    unfolding row_def by simp
qed

text \<open>
  The claim as stated, without the clamp, fails on a legacy loss above the on-hand count:
  10 destroyed of 5 on hand is reported as 5.
\<close>

theorem legacy_manual_loss_counterexample:
  "c_destroyedManualActive
     (out_computedRows (computeRows [\<lparr> in_id = ''5'', in_bn = ''1651'', in_equipmentType = ''Type 96 MBT'',
              in_onHand = NumV (Fin 5), in_dailyAttritionPct = NumV (Fin 0),
              in_destroyedManual = NumV (Fin 10), in_destroyedByDay = NotArr Undefined \<rparr>] None) ! 0) \<noteq> max 0 \<lfloor>10 :: real\<rfloor>
   \<and> c_destroyedManualTotal
     (out_computedRows (computeRows [\<lparr> in_id = ''5'', in_bn = ''1651'', in_equipmentType = ''Type 96 MBT'',
              in_onHand = NumV (Fin 5), in_dailyAttritionPct = NumV (Fin 0),
              in_destroyedManual = NumV (Fin 10), in_destroyedByDay = NotArr Undefined \<rparr>] None) ! 0) \<noteq> max 0 \<lfloor>10 :: real\<rfloor>"
  by (simp add: computedRows_nth computeRow_sel manualOf_def manualCounts_def onHandOf_def
        clamp_def)

section \<open>The round trip of rate inference and decay\<close>











section \<open>The worked example of rate inference\<close>

text \<open>
  Claim C5, amended. For 44 on hand and the daily losses \<open>[0, 1, 0, 0, 0]\<close> at day 1, no
  loss is counted through day 1: the inferred rate is 0 and the remaining count is 44. The
  figures of the claim, a rate of \<open>100 / 44 = 2.2727\<dots>\<close> percent and 43 remaining, are those
  of the daily losses \<open>[1, 0, 0, 0, 0]\<close> at day 1.
\<close>

theorem inference_example:
  "inferDailyAttritionPct (NumV (Fin 44))
     (Arr [NumV (Fin 0), NumV (Fin 1), NumV (Fin 0), NumV (Fin 0), NumV (Fin 0)])
     (NumV (Fin 1)) = Fin 0
   \<and> remainingAfterDays (Fin 44)
       (NumV (inferDailyAttritionPct (NumV (Fin 44))
          (Arr [NumV (Fin 0), NumV (Fin 1), NumV (Fin 0), NumV (Fin 0), NumV (Fin 0)])
          (NumV (Fin 1))))
       (NumV (Fin 1)) = Fin 44
   \<and> inferDailyAttritionPct (NumV (Fin 44))
       (Arr [NumV (Fin 1), NumV (Fin 0), NumV (Fin 0), NumV (Fin 0), NumV (Fin 0)])
       (NumV (Fin 1)) = Fin (25 / 11)
   \<and> remainingAfterDays (Fin 44)
       (NumV (inferDailyAttritionPct (NumV (Fin 44))
          (Arr [NumV (Fin 1), NumV (Fin 0), NumV (Fin 0), NumV (Fin 0), NumV (Fin 0)])
          (NumV (Fin 1))))
       (NumV (Fin 1)) = Fin 43
   \<and> (22727 / 10000 :: real) < 25 / 11 \<and> (25 / 11 :: real) < 22728 / 10000"
  by (simp add: DEFAULT_rates remainingAfterDays_unfold)

text \<open>
  The claim as stated fails: at day 1 the loss of day 2 is not counted, so the rate is 0,
  not \<open>25 / 11\<close>, and 44 remain, not 43.
\<close>

theorem inference_example_counterexample:
  "inferDailyAttritionPct (NumV (Fin 44))
     (Arr [NumV (Fin 0), NumV (Fin 1), NumV (Fin 0), NumV (Fin 0), NumV (Fin 0)])
     (NumV (Fin 1)) \<noteq> Fin (25 / 11)
   \<and> remainingAfterDays (Fin 44)
       (NumV (inferDailyAttritionPct (NumV (Fin 44))
          (Arr [NumV (Fin 0), NumV (Fin 1), NumV (Fin 0), NumV (Fin 0), NumV (Fin 0)])
          (NumV (Fin 1))))
       (NumV (Fin 1)) \<noteq> Fin 43"
  by (simp add: infer_eval remainingAfterDays_unfold)

section \<open>The two normalizers of the daily losses\<close>

text \<open>
  The engine's normalizer is total: whatever the field holds, it returns five integers
  between 0 and \<^verbatim>\<open>MAX_SAFE_INTEGER\<close>; an entry that is absent, not a finite number or negative
  becomes 0, and a finite one is rounded to the nearest integer.
\<close>

lemma normalizeDestroyedByDay_total:
  "length (normalizeDestroyedByDay arr) = 5
   \<and> (\<forall>x\<in>set (normalizeDestroyedByDay arr). 0 \<le> x \<and> x \<le> MAX_SAFE_INTEGER)"
  by (simp add: normalizeDestroyedByDay_def Let_def clamp_def MAX_SAFE_INTEGER_def)

lemma normalizeDestroyedByDay_nth:
  assumes "i < 5"
  shows "normalizeDestroyedByDay (Arr xs) ! i
           = (if i < length xs
              then (case Number (xs ! i) of
                      Fin x \<Rightarrow> min MAX_SAFE_INTEGER (max 0 (round_half_up x))
                    | _ \<Rightarrow> 0)
              else 0)"
    and "normalizeDestroyedByDay (NotArr v) ! i = 0"
  using assms
  by (auto simp: normalizeDestroyedByDay_def Let_def clamp_def MAX_SAFE_INTEGER_def
        at_index_def safeNum_def round_half_up_def split: number.split)

text \<open>
  Claim C9 fails on the normalizer of \<^verbatim>\<open>page.tsx\<close>, which applies \<^verbatim>\<open>Number\<close> without the guard
  of \<^verbatim>\<open>safeNum\<close>: an entry that is not numeric comes out as \<^verbatim>\<open>NaN\<close>, which is not a
  non-negative integer, where the engine's normalizer gives 0.
\<close>

theorem page_normalizeDestroyedByDay_nan:
  "page_normalizeDestroyedByDay
     (Arr [Other NaN, NumV (Fin 0), NumV (Fin 0), NumV (Fin 0), NumV (Fin 0)])
     = [NaN, Fin 0, Fin 0, Fin 0, Fin 0]
   \<and> normalizeDestroyedByDay
     (Arr [Other NaN, NumV (Fin 0), NumV (Fin 0), NumV (Fin 0), NumV (Fin 0)])
     = [0, 0, 0, 0, 0]
   \<and> page_normalizeDestroyedByDay
     (Arr [NumV NaN, NumV PosInfinity, NumV (Fin (- 3)), NumV (Fin (5 / 2))])
     = [NaN, PosInfinity, Fin 0, Fin 2, Fin 0]
   \<and> normalizeDestroyedByDay
     (Arr [NumV NaN, NumV PosInfinity, NumV (Fin (- 3)), NumV (Fin (5 / 2))])
     = [0, 0, 0, 3, 0]"
  by (simp add: page_normalizeDestroyedByDay_def normalizeDestroyedByDay_def at_index_def
        upt_rec safeNum_def clamp_def round_half_up_def MAX_SAFE_INTEGER_def)

section \<open>Rounding to a double\<close>

lemma round_even_int: "round_even (of_int m) = m"
  by (simp add: round_even_def)

lemma round_even_error: "\<bar>of_int (round_even y) - y\<bar> \<le> 1 / 2"
proof -
  have "of_int \<lfloor>y\<rfloor> \<le> y" "y < of_int \<lfloor>y\<rfloor> + 1" by linarith+
  then show ?thesis
    by (auto simp: round_even_def Let_def)
qed

lemma round_even_ge: "of_int k \<le> y \<Longrightarrow> k \<le> round_even y"
proof -
  assume "of_int k \<le> y"
  then have "k \<le> \<lfloor>y\<rfloor>" by (simp add: le_floor_iff)
  then show ?thesis by (auto simp: round_even_def Let_def)
qed

lemma round_even_le: "y \<le> of_int k \<Longrightarrow> round_even y \<le> k"
proof -
  assume y: "y \<le> of_int k"
  show ?thesis
  proof (cases "y = of_int k")
    case True
    then show ?thesis by (simp add: round_even_int)
  next
    case False
    with y have "y < of_int k" by simp
    then have "\<lfloor>y\<rfloor> < k" by (simp add: floor_less_iff)
    then show ?thesis by (auto simp: round_even_def Let_def)
  qed
qed

lemma binade:
  assumes "x \<noteq> 0"
  shows "2 powi \<lfloor>log 2 \<bar>x\<bar>\<rfloor> \<le> \<bar>x\<bar>" and "\<bar>x\<bar> < 2 powi (\<lfloor>log 2 \<bar>x\<bar>\<rfloor> + 1)"
proof -
  from assms have pos: "0 < \<bar>x\<bar>" by simp
  have pw: "(2::real) powr real_of_int k = 2 powi k" for k
    by (simp add: powr_real_of_int')
  have "\<lfloor>log 2 \<bar>x\<bar>\<rfloor> = \<lfloor>log 2 \<bar>x\<bar>\<rfloor>" ..
  with floor_log_eq_powr_iff [OF pos, of 2 "\<lfloor>log 2 \<bar>x\<bar>\<rfloor>"]
  have "2 powr real_of_int \<lfloor>log 2 \<bar>x\<bar>\<rfloor> \<le> \<bar>x\<bar> \<and> \<bar>x\<bar> < 2 powr real_of_int (\<lfloor>log 2 \<bar>x\<bar>\<rfloor> + 1)"
    by simp
  then show "2 powi \<lfloor>log 2 \<bar>x\<bar>\<rfloor> \<le> \<bar>x\<bar>" and "\<bar>x\<bar> < 2 powi (\<lfloor>log 2 \<bar>x\<bar>\<rfloor> + 1)"
    unfolding pw by blast+
qed

lemma fl_error: "\<bar>fl x - x\<bar> \<le> \<bar>x\<bar> / 2 ^ 53"
proof (cases "x = 0")
  case True
  then show ?thesis by (simp add: fl_def)
next
  case False
  define e where "e = \<lfloor>log 2 \<bar>x\<bar>\<rfloor>"
  define s :: real where "s = 2 powi (e - 52)"
  have s: "0 < s" by (simp add: s_def)
  have flx: "fl x = of_int (round_even (x / s)) * s"
    using False by (simp add: fl_def s_def e_def Let_def)
  have "fl x - x = (of_int (round_even (x / s)) - x / s) * s"
    using s by (simp add: flx field_simps)
  then have "\<bar>fl x - x\<bar> = \<bar>of_int (round_even (x / s)) - x / s\<bar> * s"
    using s by (simp add: abs_mult)
  also have "\<dots> \<le> (1 / 2) * s"
    using round_even_error [of "x / s"] s by (intro mult_right_mono) simp_all
  also have "\<dots> = 2 powi e / 2 ^ 53"
    by (simp add: s_def power_int_diff)
  also have "\<dots> \<le> \<bar>x\<bar> / 2 ^ 53"
    using binade(1) [OF False] by (simp add: e_def divide_right_mono)
  finally show ?thesis .
qed

lemma fl_nonneg: "0 \<le> y \<Longrightarrow> 0 \<le> fl y"
proof (cases "y = 0")
  case True
  then show ?thesis by (simp add: fl_def)
next
  case False
  assume "0 \<le> y"
  define s :: real where "s = 2 powi (\<lfloor>log 2 \<bar>y\<bar>\<rfloor> - 52)"
  have s: "0 < s" by (simp add: s_def)
  with \<open>0 \<le> y\<close> have "of_int 0 \<le> y / s" by simp
  then have "0 \<le> round_even (y / s)" by (rule round_even_ge)
  with s have "0 \<le> of_int (round_even (y / s)) * s" by simp
  with False show ?thesis by (simp add: fl_def Let_def s_def)
qed

lemma fl_nonpos: "y \<le> 0 \<Longrightarrow> fl y \<le> 0"
proof (cases "y = 0")
  case True
  then show ?thesis by (simp add: fl_def)
next
  case False
  assume "y \<le> 0"
  define s :: real where "s = 2 powi (\<lfloor>log 2 \<bar>y\<bar>\<rfloor> - 52)"
  have s: "0 < s" by (simp add: s_def)
  with \<open>y \<le> 0\<close> have "y / s \<le> of_int 0" by (simp add: divide_nonpos_pos)
  then have "round_even (y / s) \<le> 0" by (rule round_even_le)
  with s have "of_int (round_even (y / s)) * s \<le> 0" by (simp add: mult_nonpos_nonneg)
  with False show ?thesis by (simp add: fl_def Let_def s_def)
qed

lemma fl_pos: "0 < y \<Longrightarrow> 0 < fl y"
proof -
  assume y: "0 < y"
  have "y / 2 ^ 53 < y" using y by (simp add: field_simps)
  with fl_error [of y] y show ?thesis by (simp add: abs_if split: if_splits)
qed




lemma fl_ge_int:
  assumes "0 \<le> m" and "m \<le> 2 ^ 53" and "of_int m \<le> y"
  shows "of_int m \<le> fl y"
proof (cases "m = 0")
  case True
  with assms(3) fl_nonneg [of y] show ?thesis by simp
next
  case False
  with assms(1) have m: "1 \<le> m" by simp
  with assms(3) have y1: "1 \<le> y" by (smt (verit) of_int_1_le_iff)
  then have y0: "y \<noteq> 0" "\<bar>y\<bar> = y" by simp_all
  define e where "e = \<lfloor>log 2 \<bar>y\<bar>\<rfloor>"
  define s :: real where "s = 2 powi (e - 52)"
  have s: "0 < s" by (simp add: s_def)
  have flx: "fl y = of_int (round_even (y / s)) * s"
    using y0 by (simp add: fl_def s_def e_def Let_def)
  from y1 have "0 \<le> log 2 \<bar>y\<bar>" by simp
  then have e0: "0 \<le> e" by (simp add: e_def)
  have lo: "2 powi e \<le> y" using binade(1) [OF y0(1)] y0(2) by (simp add: e_def)
  show ?thesis
  proof (cases "e \<le> 52")
    case True
    define j where "j = nat (52 - e)"
    from True have j: "e - 52 = - int j" by (simp add: j_def)
    have ms: "real_of_int m = of_int (m * 2 ^ j) * s"
      by (simp add: j s_def power_int_minus)
    have "of_int (m * 2 ^ j) * s \<le> y"
      unfolding ms [symmetric] by (rule assms(3))
    with s have "of_int (m * 2 ^ j) \<le> y / s"
      by (simp add: pos_le_divide_eq)
    then have "m * 2 ^ j \<le> round_even (y / s)" by (rule round_even_ge)
    then have "real_of_int (m * 2 ^ j) \<le> of_int (round_even (y / s))" by (rule of_int_le_iff [THEN iffD2])
    with s have "of_int (m * 2 ^ j) * s \<le> of_int (round_even (y / s)) * s"
      by (intro mult_right_mono) simp_all
    then show ?thesis
      unfolding ms [symmetric] flx .
  next
    case False
    then have e53: "53 \<le> e" by simp
    have "2 powi e = of_int (2 ^ 52) * s"
      by (simp add: s_def power_int_diff)
    with lo s have "of_int (2 ^ 52) \<le> y / s"
      by (simp add: pos_le_divide_eq)
    then have "2 ^ 52 \<le> round_even (y / s)" by (rule round_even_ge)
    then have "real_of_int (2 ^ 52) \<le> of_int (round_even (y / s))" by (rule of_int_le_iff [THEN iffD2])
    with s have "of_int (2 ^ 52) * s \<le> of_int (round_even (y / s)) * s"
      by (intro mult_right_mono) simp_all
    with \<open>2 powi e = of_int (2 ^ 52) * s\<close> flx have "2 powi e \<le> fl y" by simp
    moreover from e53 have "(2::real) powi 53 \<le> 2 powi e"
      by (intro power_int_increasing) simp_all
    moreover from assms(2) have "real_of_int m \<le> real_of_int (2 ^ 53)" by (rule of_int_le_iff [THEN iffD2])
    ultimately show ?thesis by simp
  qed
qed


lemma exponent_53: "\<lfloor>log 2 (9007199254740993 :: real)\<rfloor> = 53"
proof -
  have "(2::real) powr real_of_int 53 \<le> 9007199254740993 \<and> (9007199254740993::real) < 2 powr real_of_int (53 + 1)"
    by simp
  with floor_log_eq_powr_iff [of "9007199254740993::real" 2 53] show ?thesis by simp
qed

lemma dbl_odd: "dbl 9007199254740993 = 9007199254740992"
proof -
  have "round_even (9007199254740993 / 2) = 4503599627370496"
  proof -
    have "\<lfloor>9007199254740993 / 2 :: real\<rfloor> = 4503599627370496"
      by (rule floor_unique) simp_all
    then show ?thesis by (simp add: round_even_def Let_def)
  qed
  then show ?thesis
    by (simp add: dbl_def fl_def exponent_53 Let_def)
qed

section \<open>Accounting on doubles\<close>














section \<open>The rollups on doubles\<close>





























end
